theory Spec2Isabelle
  imports Main "HOL-Library.Multiset" "HOL-Library.Sublist"
begin

section \<open>Data model\<close>

text \<open>
  The plugin of \<^verbatim>\<open>src/main.py\<close> (class \<^verbatim>\<open>BatchRecall\<close>) reads five configuration keys.
  \<^verbatim>\<open>recall_time\<close> is read with \<^verbatim>\<open>self.conf["recall_time"]\<close>; the other four are read with
  \<^verbatim>\<open>self.conf.get(key, default)\<close>, so an absent key is \<open>None\<close> here and the default is
  applied where the source applies it.
\<close>

record conf =
  recall_time :: int
  enable_private_recall :: "bool option"
  enable_group_recall :: "bool option"
  group_whitelist :: "string list option"
  batch_max_count :: "int option"

text \<open>
  A Python \<^verbatim>\<open>str\<close> whose characters are looked at is the list of its Unicode code points.
  Identifiers (group ids, user ids) are only compared for equality and stay of type
  \<open>string\<close>.
\<close>

type_synonym pystr = "nat list"

text \<open>
  What the handlers use of the Python interpreter and is not in the source of the plugin:
  \<open>decimal c\<close> is the value of the code point \<open>c\<close> when it is a Unicode decimal digit
  (the characters that \<^verbatim>\<open>\d\<close> matches in a \<^verbatim>\<open>str\<close> pattern and that \<^verbatim>\<open>int\<close> converts),
  \<open>whitespace c\<close> tells whether \<^verbatim>\<open>str.strip()\<close> removes \<open>c\<close>, and \<open>int_max_str_digits\<close> is
  \<^verbatim>\<open>sys.get_int_max_str_digits()\<close>, the longest string of digits that \<^verbatim>\<open>int\<close> converts
  (\<open>4300\<close> unless configured, \<open>0\<close> for no limit, and never between \<open>1\<close> and \<open>639\<close>).
  The three are parameters of the model.
\<close>

record python =
  decimal :: "nat \<Rightarrow> nat option"
  whitespace :: "nat \<Rightarrow> bool"
  int_max_str_digits :: nat

text \<open>
  A message segment of \<^verbatim>\<open>event.get_messages()\<close>. \<open>At q\<close> carries \<^verbatim>\<open>str(segment.qq)\<close>,
  \<open>Plain t\<close> carries \<^verbatim>\<open>segment.text\<close>; every other component is \<open>OtherSegment\<close>.
\<close>

datatype segment = At string | Plain pystr | OtherSegment

text \<open>
  The event, as far as the handlers look at it. \<open>group_id\<close> is \<^verbatim>\<open>event.get_group_id()\<close>
  (empty for a private chat), \<open>group_id_int\<close> is the value of \<^verbatim>\<open>int(group_id)\<close>, or \<open>None\<close>
  when that conversion raises; likewise \<open>sender_id_int\<close> for \<^verbatim>\<open>int(event.get_sender_id())\<close>.
  \<open>result_chain\<close> is \<^verbatim>\<open>event.get_result().chain\<close>, or \<open>None\<close> when there is no result.
\<close>

record event =
  is_aiocqhttp :: bool
  group_id :: string
  group_id_int :: "int option"
  sender_id_int :: "int option"
  messages :: "segment list"
  result_chain :: "segment list option"

text \<open>
  One entry of the \<^verbatim>\<open>"messages"\<close> list returned by \<^verbatim>\<open>get_group_msg_history\<close>. The source
  reads three keys, each with \<^verbatim>\<open>.get\<close>: \<^verbatim>\<open>msg.get("message_id")\<close>,
  \<^verbatim>\<open>msg.get("sender", {}).get("user_id", "")\<close> and \<^verbatim>\<open>item.get("time", 0)\<close>. A field is \<open>None\<close>
  when the key is absent. \<open>sender_user_id\<close> holds \<^verbatim>\<open>str(user_id)\<close>.
\<close>

record history_entry =
  message_id :: "int option"
  sender_user_id :: "string option"
  time :: "int option"

text \<open>The result of \<^verbatim>\<open>call_action("get_group_msg_history", ...)\<close>: the call raises, returns
  something that is not a dict, or returns a dict with or without the key \<^verbatim>\<open>"messages"\<close>.\<close>

datatype history_result = HistoryRaises | HistoryNotDict | HistoryDict "history_entry list option"

text \<open>The result of \<^verbatim>\<open>call_action("send_group_msg", ...)\<close> or \<^verbatim>\<open>"send_private_msg"\<close>: the call
  raises, returns something that is not a dict, or returns a dict whose \<^verbatim>\<open>.get("message_id")\<close>
  is the given value (\<open>None\<close> when the key is absent).\<close>

datatype send_result = SendRaises | SendNotDict | SendDict "int option"

text \<open>
  How \<^verbatim>\<open>delete_msg\<close> ends: it returns, it raises \<^verbatim>\<open>ActionFailed\<close>, or it raises another
  \<^verbatim>\<open>Exception\<close>. An \<^verbatim>\<open>ActionFailed\<close> of aiocqhttp keeps the result dict of the failed action
  and reads its attribute \<^verbatim>\<open>retcode\<close> from that dict: \<open>ActionFailed (Some r)\<close> has the entry
  \<open>r\<close>, \<open>ActionFailed None\<close> has no entry \<^verbatim>\<open>"retcode"\<close>, and reading the attribute then raises
  \<^verbatim>\<open>KeyError\<close>.
\<close>

datatype delete_outcome = Deleted | ActionFailed "int option" | OtherException

text \<open>An element of the list made by \<^verbatim>\<open>_parse_onebot_json\<close>; its content is not looked at.\<close>

type_synonym onebot_message = string

text \<open>The calls the handlers make on \<^verbatim>\<open>event.bot\<close>, in the order they make them.\<close>

datatype call =
    GetGroupMsgHistory int int
  | DeleteMsg int
  | SendGroupMsg int "onebot_message list"
  | SendPrivateMsg int "onebot_message list"

text \<open>
  The bot as the handlers see it. The outcome of \<^verbatim>\<open>delete_msg\<close> may depend on every call
  made before it by the same handler or task.
\<close>

record bot =
  get_group_msg_history :: "int \<Rightarrow> int \<Rightarrow> history_result"
  delete_msg :: "call list \<Rightarrow> int \<Rightarrow> delete_outcome"
  send_msg :: "call \<Rightarrow> send_result"

datatype reply =
    UnsupportedPlatform
  | GroupOnly
  | MissingCount
  | NonPositiveCount
  | HistoryFailed
  | NoTargetMessages
  | NoBotMessages
  | RecalledOfUser int
  | RecalledRecent int

datatype log = LogInfo string | LogWarning string | LogError string

record outcome =
  replies :: "reply list"
  calls :: "call list"
  logs :: "log list"
  to_recall :: "history_entry list"
  raised :: bool

text \<open>
  A task made by \<^verbatim>\<open>asyncio.create_task\<close> is named by a handle, a natural number. A task
  is pending, pending with a cancellation requested by \<^verbatim>\<open>task.cancel()\<close>, or done: its
  coroutine returned, or it was cancelled.
\<close>

datatype task_status = Pending | CancelRequested | Completed | Cancelled

text \<open>
  The state of the plugin and of its tasks: \<open>recall_tasks\<close> is the set
  \<^verbatim>\<open>self.recall_tasks\<close>, listed without a meaning of its order; \<open>created\<close> counts the
  tasks created so far and is the next fresh handle; \<open>status\<close> and \<open>task_message_id\<close>
  describe each task.
\<close>

record state =
  recall_tasks :: "nat list"
  created :: nat
  status :: "nat \<Rightarrow> task_status"
  task_message_id :: "nat \<Rightarrow> int"

text \<open>Where a task is when a cancellation reaches it: the coroutine of \<^verbatim>\<open>_recall_msg\<close>
  suspends in \<^verbatim>\<open>asyncio.sleep\<close> and in \<^verbatim>\<open>client.delete_msg\<close>.\<close>

datatype cancel_at = NotCancelled | CancelledInSleep | CancelledInDelete

text \<open>How a coroutine ends: it returns, or \<^verbatim>\<open>CancelledError\<close> or \<^verbatim>\<open>KeyError\<close> leaves it.\<close>

datatype task_result = Returned | RaisedCancelled | RaisedKeyError

record task_outcome =
  t_calls :: "call list"
  t_logs :: "log list"
  t_result :: task_result

record intercept_outcome =
  i_state :: state
  i_calls :: "call list"
  i_logs :: "log list"
  i_chain_cleared :: bool

section \<open>Library functions of Python used by the handlers\<close>

text \<open>\<^verbatim>\<open>str.strip()\<close>.\<close>

definition strip :: "python \<Rightarrow> pystr \<Rightarrow> pystr" where
  "strip py s = rev (dropWhile (whitespace py) (rev (dropWhile (whitespace py) s)))"

text \<open>\<^verbatim>\<open>tail.split(word, 1)[1]\<close> when \<^verbatim>\<open>word in tail\<close>: the text after the first occurrence
  of \<open>word\<close>; \<open>None\<close> when \<open>word\<close> does not occur.\<close>

fun after_first :: "pystr \<Rightarrow> pystr \<Rightarrow> pystr option" where
  "after_first word [] = (if word = [] then Some [] else None)"
| "after_first word (c # cs) =
     (if prefix word (c # cs) then Some (drop (length word) (c # cs))
      else after_first word cs)"

text \<open>\<^verbatim>\<open>re.findall(r"\d+", s)\<close>: the maximal runs of decimal digits, from left to right.
  The second argument is the run being read.\<close>

definition is_digit :: "python \<Rightarrow> nat \<Rightarrow> bool" where
  "is_digit py c = (decimal py c \<noteq> None)"

fun findall_digits :: "python \<Rightarrow> pystr \<Rightarrow> pystr \<Rightarrow> pystr list" where
  "findall_digits py run [] = (if run = [] then [] else [run])"
| "findall_digits py run (c # cs) =
     (if is_digit py c then findall_digits py (run @ [c]) cs
      else if run = [] then findall_digits py [] cs
      else run # findall_digits py [] cs)"

text \<open>
  \<^verbatim>\<open>int(s)\<close> for a run of decimal digits: \<open>None\<close> when it raises \<^verbatim>\<open>ValueError\<close>, which it does
  for a run longer than the limit of the interpreter; the value of the run otherwise,
  unbounded as Python's integers are.
\<close>

definition digit_value :: "python \<Rightarrow> nat \<Rightarrow> int" where
  "digit_value py c = (case decimal py c of None \<Rightarrow> 0 | Some d \<Rightarrow> int d)"

definition py_int :: "python \<Rightarrow> pystr \<Rightarrow> int option" where
  "py_int py s =
     (if 0 < int_max_str_digits py \<and> int_max_str_digits py < length s then None
      else Some (foldl (\<lambda>a c. 10 * a + digit_value py c) 0 s))"

text \<open>
  \<^verbatim>\<open>xs.sort(key=key, reverse=True)\<close>. Python's sort is stable; with \<^verbatim>\<open>reverse=True\<close> the list
  is reversed, sorted stably in ascending order and reversed again, so that it ends in
  descending order with equal keys in their original order.
\<close>

definition py_sort_reverse :: "('a \<Rightarrow> int) \<Rightarrow> 'a list \<Rightarrow> 'a list" where
  "py_sort_reverse key xs = rev (sort_key key (rev xs))"

text \<open>The slice \<^verbatim>\<open>xs[:n]\<close>. A negative \<open>n\<close> counts from the end of the list.\<close>

definition py_slice_to :: "'a list \<Rightarrow> int \<Rightarrow> 'a list" where
  "py_slice_to xs n =
     (if 0 \<le> n then take (nat n) xs else take (nat (int (length xs) + n)) xs)"

section \<open>Automatic recall\<close>

text \<open>Python's truth value of an optional string (\<open>None\<close> and the empty string are false)
  and of an optional integer (\<open>None\<close> and \<open>0\<close> are false).\<close>

definition truthy_str :: "string option \<Rightarrow> bool" where
  "truthy_str t = (case t of None \<Rightarrow> False | Some s \<Rightarrow> s \<noteq> [])"

definition truthy_int :: "int option \<Rightarrow> bool" where
  "truthy_int m = (case m of None \<Rightarrow> False | Some i \<Rightarrow> i \<noteq> 0)"

text \<open>\<^verbatim>\<open>_remove_task\<close>, lines 30-32: \<^verbatim>\<open>self.recall_tasks.discard(task)\<close>.\<close>

definition remove_task :: "nat \<Rightarrow> state \<Rightarrow> state" where
  "remove_task task s = s\<lparr>recall_tasks := removeAll task (recall_tasks s)\<rparr>"

text \<open>
  \<^verbatim>\<open>_recall_msg\<close>, lines 34-52. The sleep is outside the \<^verbatim>\<open>try\<close>; the \<^verbatim>\<open>try\<close> catches
  \<^verbatim>\<open>ActionFailed\<close> and \<^verbatim>\<open>Exception\<close>, which \<^verbatim>\<open>CancelledError\<close> is not. Line 45 reads
  \<^verbatim>\<open>getattr(e, "retcode", None)\<close> inside the clause for \<^verbatim>\<open>ActionFailed\<close>: the default is used
  for an \<^verbatim>\<open>AttributeError\<close> only, so the \<^verbatim>\<open>KeyError\<close> of an exception without the entry is
  raised there, where the clause for \<^verbatim>\<open>Exception\<close> of the same \<^verbatim>\<open>try\<close> does not catch it.
\<close>

definition recall_msg :: "conf \<Rightarrow> bot \<Rightarrow> cancel_at \<Rightarrow> int \<Rightarrow> task_outcome" where
  "recall_msg cf client cancelled msg_id =
     (let waiting = [LogInfo ''waiting before recall'']
      in if cancelled = CancelledInSleep
         then \<lparr>t_calls = [], t_logs = waiting, t_result = RaisedCancelled\<rparr>
         else if msg_id \<noteq> 0
         then (if cancelled = CancelledInDelete
               then \<lparr>t_calls = [DeleteMsg msg_id], t_logs = waiting,
                     t_result = RaisedCancelled\<rparr>
               else (case delete_msg client [] msg_id of
                       Deleted \<Rightarrow>
                         \<lparr>t_calls = [DeleteMsg msg_id],
                          t_logs = waiting @ [LogInfo ''recalled''], t_result = Returned\<rparr>
                     | ActionFailed None \<Rightarrow>
                         \<lparr>t_calls = [DeleteMsg msg_id], t_logs = waiting,
                          t_result = RaisedKeyError\<rparr>
                     | ActionFailed (Some retcode) \<Rightarrow>
                         if retcode = 1200
                         then \<lparr>t_calls = [DeleteMsg msg_id],
                               t_logs = waiting @ [LogInfo ''recall timed out or already recalled''],
                               t_result = Returned\<rparr>
                         else \<lparr>t_calls = [DeleteMsg msg_id],
                               t_logs = waiting @ [LogError ''recall failed''],
                               t_result = Returned\<rparr>
                     | OtherException \<Rightarrow>
                         \<lparr>t_calls = [DeleteMsg msg_id],
                          t_logs = waiting @ [LogError ''recall failed''],
                          t_result = Returned\<rparr>))
         else \<lparr>t_calls = [], t_logs = waiting, t_result = Returned\<rparr>)"

text \<open>\<^verbatim>\<open>_should_enable_recall\<close>, lines 54-63.\<close>

definition should_enable_recall :: "conf \<Rightarrow> event \<Rightarrow> bool" where
  "should_enable_recall cf ev =
     (if group_id ev = []
      then (case enable_private_recall cf of None \<Rightarrow> True | Some v \<Rightarrow> v)
      else let whitelist = (case group_whitelist cf of None \<Rightarrow> [] | Some w \<Rightarrow> w)
           in if whitelist \<noteq> [] \<and> group_id ev \<notin> set whitelist then False
              else (case enable_group_recall cf of None \<Rightarrow> True | Some v \<Rightarrow> v))"

text \<open>
  Lines 124-126: \<^verbatim>\<open>asyncio.create_task\<close>, \<^verbatim>\<open>task.add_done_callback(self._remove_task)\<close> and
  \<^verbatim>\<open>self.recall_tasks.add(task)\<close>. There is no \<^verbatim>\<open>await\<close> between the three.
\<close>

definition schedule :: "int \<Rightarrow> state \<Rightarrow> state" where
  "schedule msg_id s =
     (let task = created s
      in s\<lparr>recall_tasks := List.insert task (recall_tasks s),
           created := Suc task,
           status := (status s)(task := Pending),
           task_message_id := (task_message_id s)(task := msg_id)\<rparr>)"

text \<open>Lines 115-117: the message id of a send result, \<open>None\<close> unless the result is a dict
  with the key.\<close>

definition sent_message_id :: "send_result \<Rightarrow> int option" where
  "sent_message_id send_result = (case send_result of SendDict m \<Rightarrow> m | _ \<Rightarrow> None)"

definition skipped :: "state \<Rightarrow> call list \<Rightarrow> log list \<Rightarrow> bool \<Rightarrow> intercept_outcome" where
  "skipped s cs ls cleared = \<lparr>i_state = s, i_calls = cs, i_logs = ls, i_chain_cleared = cleared\<rparr>"

text \<open>
  \<^verbatim>\<open>intercept_and_recall\<close>, lines 66-130. \<open>parse\<close> is \<^verbatim>\<open>_parse_onebot_json\<close> (\<open>None\<close> when it
  raises; the outer \<^verbatim>\<open>except\<close> logs that).
\<close>

definition intercept_and_recall ::
  "conf \<Rightarrow> (segment list \<Rightarrow> onebot_message list option) \<Rightarrow> bot \<Rightarrow> event \<Rightarrow> state
     \<Rightarrow> intercept_outcome" where
  "intercept_and_recall cf parse b ev s =
     (if \<not> should_enable_recall cf ev then skipped s [] [] False
      else if \<not> is_aiocqhttp ev then skipped s [] [] False
      else let intercepted = [LogInfo ''intercepted a bot message'']
      in (case result_chain ev of
            None \<Rightarrow> skipped s [] (intercepted @ [LogWarning ''empty chain'']) False
          | Some [] \<Rightarrow> skipped s [] (intercepted @ [LogWarning ''empty chain'']) False
          | Some original_chain \<Rightarrow>
             (case parse original_chain of
                None \<Rightarrow> skipped s [] (intercepted @ [LogError ''intercept failed'']) True
              | Some [] \<Rightarrow> skipped s [] (intercepted @ [LogWarning ''nothing to send'']) True
              | Some onebot_messages \<Rightarrow>
                 let is_group = (group_id ev \<noteq> []);
                     session_id = (if is_group then group_id_int ev else sender_id_int ev)
                 in (case session_id of
                       None \<Rightarrow> skipped s [] (intercepted @ [LogError ''send failed'']) True
                     | Some sid \<Rightarrow>
                        let c = (if is_group then SendGroupMsg sid onebot_messages
                                 else SendPrivateMsg sid onebot_messages)
                        in (case send_msg b c of
                              SendRaises \<Rightarrow>
                                skipped s [c] (intercepted @ [LogError ''send failed'']) True
                            | send_result \<Rightarrow>
                               let msg_id = sent_message_id send_result
                               in if \<not> truthy_int msg_id
                                  then skipped s [c]
                                         (intercepted @ [LogError ''no message id'']) True
                                  else \<lparr>i_state = schedule (the msg_id) s, i_calls = [c],
                                        i_logs = intercepted @ [LogInfo ''sent'',
                                                   LogInfo ''recall scheduled''],
                                        i_chain_cleared = True\<rparr>)))))"

text \<open>
  \<^verbatim>\<open>terminate\<close>, lines 173-180. The loop of lines 175-177 cancels the tasks of the set that
  are not done.
\<close>

definition is_done :: "task_status \<Rightarrow> bool" where
  "is_done st = (st = Completed \<or> st = Cancelled)"

definition cancel :: "nat \<Rightarrow> state \<Rightarrow> state" where
  "cancel task s = s\<lparr>status := (status s)(task := CancelRequested)\<rparr>"

fun cancel_loop :: "nat list \<Rightarrow> state \<Rightarrow> state" where
  "cancel_loop [] s = s"
| "cancel_loop (task # rest) s =
     cancel_loop rest (if \<not> is_done (status s task) then cancel task s else s)"

text \<open>
  Line 178: \<^verbatim>\<open>await asyncio.gather(*self.recall_tasks, return_exceptions=True)\<close>. Each task
  is awaited until it is done, and its result or its \<^verbatim>\<open>CancelledError\<close> is put in the list of
  results instead of being raised. A task with a cancellation requested ends cancelled, since
  \<^verbatim>\<open>_recall_msg\<close> does not catch \<^verbatim>\<open>CancelledError\<close>; a pending task runs until it returns. When
  a task is done its callback \<^verbatim>\<open>_remove_task\<close> runs.
\<close>

fun gather :: "nat list \<Rightarrow> state \<Rightarrow> task_result list \<times> state" where
  "gather [] s = ([], s)"
| "gather (task # rest) s =
     (let (r, s') =
            (case status s task of
               Completed \<Rightarrow> (Returned, remove_task task s)
             | Cancelled \<Rightarrow> (RaisedCancelled, remove_task task s)
             | CancelRequested \<Rightarrow>
                 (RaisedCancelled,
                  remove_task task (s\<lparr>status := (status s)(task := Cancelled)\<rparr>))
             | Pending \<Rightarrow>
                 (Returned,
                  remove_task task (s\<lparr>status := (status s)(task := Completed)\<rparr>)));
          (rs, s'') = gather rest s'
      in (r # rs, s''))"

definition terminate :: "state \<Rightarrow> state \<times> task_result list \<times> log list" where
  "terminate s =
     (let s1 = cancel_loop (recall_tasks s) s;
          (results, s2) = gather (recall_tasks s1) s1;
          s3 = s2\<lparr>recall_tasks := []\<rparr>
      in (s3, results, [LogInfo ''plugin unloaded'']))"

section \<open>The batch recall command\<close>

text \<open>The command word of \<^verbatim>\<open>@filter.command\<close>: four CJK characters, U+6279, U+91CF,
  U+64A4 and U+56DE.\<close>

definition command_word :: pystr where
  "command_word = [0x6279, 0x91CF, 0x64A4, 0x56DE]"

text \<open>Lines 199-203: the first \<open>At\<close> segment whose target is not \<^verbatim>\<open>"all"\<close>.\<close>

fun find_target_qq :: "segment list \<Rightarrow> string option" where
  "find_target_qq [] = None"
| "find_target_qq (At q # segs) = (if q \<noteq> ''all'' then Some q else find_target_qq segs)"
| "find_target_qq (_ # segs) = find_target_qq segs"

text \<open>Lines 205-209: the texts of the \<open>Plain\<close> segments, joined and stripped.\<close>

fun plain_parts :: "segment list \<Rightarrow> pystr list" where
  "plain_parts [] = []"
| "plain_parts (Plain t # segs) = t # plain_parts segs"
| "plain_parts (_ # segs) = plain_parts segs"

definition full_text :: "python \<Rightarrow> segment list \<Rightarrow> pystr" where
  "full_text py segs = strip py (concat (plain_parts segs))"

text \<open>Lines 211-214: the digit runs after the command word.\<close>

definition count_nums :: "python \<Rightarrow> segment list \<Rightarrow> pystr list" where
  "count_nums py segs =
     (let tail = full_text py segs;
          tail = (case after_first command_word tail of Some rest \<Rightarrow> rest | None \<Rightarrow> tail)
      in findall_digits py [] tail)"

text \<open>Line 224: \<^verbatim>\<open>int(self.conf.get("batch_max_count", 20))\<close>.\<close>

definition max_count_of :: "conf \<Rightarrow> int" where
  "max_count_of cf = (case batch_max_count cf of None \<Rightarrow> 20 | Some m \<Rightarrow> m)"

text \<open>Lines 225-226: the requested count capped by the configured maximum.\<close>

definition cap_count :: "int \<Rightarrow> int \<Rightarrow> int" where
  "cap_count cnt max_count = (if cnt > max_count then max_count else cnt)"

text \<open>Line 245: \<^verbatim>\<open>str(msg.get("sender", {}).get("user_id", ""))\<close>; line 257:
  \<^verbatim>\<open>item.get("time", 0)\<close>.\<close>

definition sender_str :: "history_entry \<Rightarrow> string" where
  "sender_str msg = (case sender_user_id msg of None \<Rightarrow> [] | Some u \<Rightarrow> u)"

definition time_key :: "history_entry \<Rightarrow> int" where
  "time_key item = (case time item of None \<Rightarrow> 0 | Some t \<Rightarrow> t)"

text \<open>Lines 241-248: the history filtered by the target sender, when there is one.\<close>

definition filter_messages :: "string option \<Rightarrow> history_entry list \<Rightarrow> history_entry list" where
  "filter_messages target_qq history_messages =
     (if truthy_str target_qq
      then filter (\<lambda>msg. sender_str msg = the target_qq) history_messages
      else history_messages)"

text \<open>Lines 257-258: the window to recall, from a non-empty filtered list.\<close>

definition recall_window :: "history_entry list \<Rightarrow> int \<Rightarrow> history_entry list" where
  "recall_window filtered_messages cnt =
     py_slice_to (py_sort_reverse time_key filtered_messages) cnt"

text \<open>
  Lines 260-269: the deletion loop. It carries the calls made so far, the log and the
  tally. An entry without a true message id is skipped (\<^verbatim>\<open>continue\<close>); a delete that
  raises is logged and the loop goes on.
\<close>

fun delete_loop ::
  "bot \<Rightarrow> history_entry list \<Rightarrow> call list \<Rightarrow> log list \<Rightarrow> int \<Rightarrow> call list \<times> log list \<times> int" where
  "delete_loop b [] cs ls success = (cs, ls, success)"
| "delete_loop b (msg # rest) cs ls success =
     (if \<not> truthy_int (message_id msg) then delete_loop b rest cs ls success
      else let mid = the (message_id msg) in
        if delete_msg b cs mid = Deleted
        then delete_loop b rest (cs @ [DeleteMsg mid]) ls (success + 1)
        else delete_loop b rest (cs @ [DeleteMsg mid])
               (ls @ [LogError ''batch recall failed'']) success)"

definition reject :: "reply \<Rightarrow> outcome" where
  "reject r = \<lparr>replies = [r], calls = [], logs = [], to_recall = [], raised = False\<rparr>"

text \<open>Line 219 outside any \<^verbatim>\<open>try\<close>: the \<^verbatim>\<open>ValueError\<close> of \<^verbatim>\<open>int\<close> leaves the handler, which has
  yielded nothing and called nothing.\<close>

definition value_error :: outcome where
  "value_error = \<lparr>replies = [], calls = [], logs = [], to_recall = [], raised = True\<rparr>"

text \<open>
  \<^verbatim>\<open>batch_recall_command\<close>, lines 184-274. The outcome lists the replies yielded, the bot
  calls made, the log lines written, the value of the local \<^verbatim>\<open>to_recall\<close> (empty when the
  handler ends before line 258), and whether an exception left the handler.
\<close>

definition batch_recall_command :: "python \<Rightarrow> conf \<Rightarrow> bot \<Rightarrow> event \<Rightarrow> outcome" where
  "batch_recall_command py cf b ev =
     (if \<not> is_aiocqhttp ev then reject UnsupportedPlatform
      else if group_id ev = [] then reject GroupOnly
      else let target_qq = find_target_qq (messages ev);
               nums = count_nums py (messages ev)
        in if nums = [] then reject MissingCount
        else (case py_int py (last nums) of
                None \<Rightarrow> value_error
              | Some cnt \<Rightarrow>
          if cnt \<le> 0 then reject NonPositiveCount
          else let max_count = max_count_of cf;
                   cnt = cap_count cnt max_count;
                   fetch_count = min (max_count * 3) 100
          in (case group_id_int ev of
                None \<Rightarrow> \<lparr>replies = [HistoryFailed], calls = [],
                          logs = [LogError ''batch recall: history failed''], to_recall = [],
                          raised = False\<rparr>
              | Some gid \<Rightarrow>
                 (case get_group_msg_history b gid fetch_count of
                    HistoryRaises \<Rightarrow>
                      \<lparr>replies = [HistoryFailed], calls = [GetGroupMsgHistory gid fetch_count],
                       logs = [LogError ''batch recall: history failed''], to_recall = [],
                       raised = False\<rparr>
                  | r \<Rightarrow>
                     let history_messages =
                           (case r of HistoryDict (Some ms) \<Rightarrow> ms | _ \<Rightarrow> []);
                         filtered_messages = filter_messages target_qq history_messages
                     in if filtered_messages = []
                        then \<lparr>replies = [if truthy_str target_qq then NoTargetMessages
                                           else NoBotMessages],
                              calls = [GetGroupMsgHistory gid fetch_count],
                              logs = [], to_recall = [], raised = False\<rparr>
                        else let to_recall = recall_window filtered_messages cnt;
                                 (cs, ls, success) =
                                    delete_loop b to_recall
                                      [GetGroupMsgHistory gid fetch_count] [] 0
                             in \<lparr>replies = [if truthy_str target_qq
                                             then RecalledOfUser success
                                             else RecalledRecent success],
                                 calls = cs, logs = ls, to_recall = to_recall,
                                 raised = False\<rparr>))))"

section \<open>The specification's selection, and observers of an outcome\<close>

text \<open>
  The selection as the specification words it: (1) the requested count is clamped to at
  most \<open>max_count\<close>, (2) the entries of the target sender are kept when a target is given,
  all entries otherwise, (3) they are sorted by timestamp, most recent first, entries with
  equal timestamps staying in fetch order, (4) the first entries, as many as the clamped
  count, are returned.
\<close>

definition kept_spec :: "string option \<Rightarrow> history_entry list \<Rightarrow> history_entry list" where
  "kept_spec target_sender history =
     (case target_sender of None \<Rightarrow> history
      | Some sender \<Rightarrow> filter (\<lambda>e. sender_str e = sender) history)"

definition select_spec ::
  "string option \<Rightarrow> int \<Rightarrow> int \<Rightarrow> history_entry list \<Rightarrow> history_entry list" where
  "select_spec target_sender requested_count max_count history =
     (let n = min requested_count max_count;
          kept = kept_spec target_sender history;
          ordered = sort_key (\<lambda>e. - time_key e) kept
      in take (nat n) ordered)"

text \<open>The message ids of the entries of a window that have a true message id.\<close>

definition recall_ids :: "history_entry list \<Rightarrow> int list" where
  "recall_ids msgs =
     map (\<lambda>e. the (message_id e)) (filter (\<lambda>e. truthy_int (message_id e)) msgs)"

text \<open>The ids of the delete calls of a trace, and the counts of its history calls.\<close>

definition delete_ids :: "call list \<Rightarrow> int list" where
  "delete_ids cs = concat (map (\<lambda>c. case c of DeleteMsg m \<Rightarrow> [m] | _ \<Rightarrow> []) cs)"

definition history_counts :: "call list \<Rightarrow> int list" where
  "history_counts cs =
     concat (map (\<lambda>c. case c of GetGroupMsgHistory g n \<Rightarrow> [n] | _ \<Rightarrow> []) cs)"

text \<open>The number of delete calls of a trace that succeeded, the trace being made after the
  calls \<open>prev\<close>.\<close>

fun succeeded :: "bot \<Rightarrow> call list \<Rightarrow> call list \<Rightarrow> nat" where
  "succeeded b prev [] = 0"
| "succeeded b prev (DeleteMsg m # cs) =
     (if delete_msg b prev m = Deleted then 1 else 0) + succeeded b (prev @ [DeleteMsg m]) cs"
| "succeeded b prev (c # cs) = succeeded b (prev @ [c]) cs"

text \<open>The success count of the final reply, when the handler got that far.\<close>

definition reported :: "outcome \<Rightarrow> int option" where
  "reported out =
     (case replies out of
        [RecalledOfUser n] \<Rightarrow> Some n
      | [RecalledRecent n] \<Rightarrow> Some n
      | _ \<Rightarrow> None)"

text \<open>The count that line 219 reads from the command text: \<open>None\<close> when there is no run of
  digits or \<^verbatim>\<open>int\<close> raises.\<close>

definition parsed_count :: "python \<Rightarrow> event \<Rightarrow> int option" where
  "parsed_count py ev =
     (if count_nums py (messages ev) = [] then None
      else py_int py (last (count_nums py (messages ev))))"

text \<open>The handler reaches the call of line 234: the platform and the group are accepted, the
  count is read and is positive, and \<^verbatim>\<open>int(group_id)\<close> of line 231 does not raise.\<close>

definition reaches_fetch :: "python \<Rightarrow> event \<Rightarrow> bool" where
  "reaches_fetch py ev =
     (is_aiocqhttp ev \<and> group_id ev \<noteq> []
      \<and> (case parsed_count py ev of None \<Rightarrow> False | Some cnt \<Rightarrow> 0 < cnt)
      \<and> group_id_int ev \<noteq> None)"

text \<open>The error lines of a log.\<close>

definition error_logs :: "log list \<Rightarrow> log list" where
  "error_logs ls = filter (\<lambda>l. case l of LogError m \<Rightarrow> True | _ \<Rightarrow> False) ls"

text \<open>The status a task has once it has been awaited.\<close>

definition settled :: "task_status \<Rightarrow> task_status" where
  "settled st = (case st of Pending \<Rightarrow> Completed | CancelRequested \<Rightarrow> Cancelled | _ \<Rightarrow> st)"

text \<open>A history result with the message id of every entry changed by \<open>g\<close>.\<close>

definition with_ids :: "(int option \<Rightarrow> int option) \<Rightarrow> history_result \<Rightarrow> history_result" where
  "with_ids g r =
     (case r of HistoryDict (Some ms) \<Rightarrow> HistoryDict (Some (map (message_id_update g) ms))
      | _ \<Rightarrow> r)"

section \<open>Example values\<close>

text \<open>An interpreter with the default limit, the whitespace of \<^verbatim>\<open>str.isspace\<close>, and of the
  table of decimal digits the ASCII, Arabic-Indic and fullwidth digits.\<close>

definition example_python :: python where
  "example_python =
     \<lparr>decimal = (\<lambda>c. if 0x30 \<le> c \<and> c \<le> 0x39 then Some (c - 0x30)
                     else if 0x660 \<le> c \<and> c \<le> 0x669 then Some (c - 0x660)
                     else if 0xFF10 \<le> c \<and> c \<le> 0xFF19 then Some (c - 0xFF10)
                     else None),
      whitespace = (\<lambda>c. (0x09 \<le> c \<and> c \<le> 0x0D) \<or> (0x1C \<le> c \<and> c \<le> 0x20)
                     \<or> c = 0x85 \<or> c = 0xA0 \<or> c = 0x1680 \<or> (0x2000 \<le> c \<and> c \<le> 0x200A)
                     \<or> c = 0x2028 \<or> c = 0x2029 \<or> c = 0x202F \<or> c = 0x205F
                     \<or> c = 0x3000),
      int_max_str_digits = 4300\<rparr>"

text \<open>The command word followed by a space and the given code points.\<close>

definition command_text :: "pystr \<Rightarrow> segment list" where
  "command_text rest = [Plain (command_word @ 0x20 # rest)]"

definition example_history :: "history_entry list" where
  "example_history =
     [\<lparr>message_id = Some 1, sender_user_id = Some ''A'', time = Some 10\<rparr>,
      \<lparr>message_id = Some 2, sender_user_id = Some ''B'', time = Some 20\<rparr>,
      \<lparr>message_id = Some 3, sender_user_id = Some ''A'', time = Some 30\<rparr>]"

definition example_conf :: conf where
  "example_conf =
     \<lparr>recall_time = 30, enable_private_recall = None, enable_group_recall = None,
      group_whitelist = None, batch_max_count = None\<rparr>"

definition example_bot :: bot where
  "example_bot =
     \<lparr>get_group_msg_history = (\<lambda>g n. HistoryDict (Some example_history)),
      delete_msg = (\<lambda>cs m. if m = 2 then ActionFailed (Some 1200) else Deleted),
      send_msg = (\<lambda>c. SendDict (Some 42))\<rparr>"

definition example_gaps :: "history_entry list" where
  "example_gaps =
     [\<lparr>message_id = Some 1, sender_user_id = Some ''A'', time = Some 10\<rparr>,
      \<lparr>message_id = None, sender_user_id = Some ''B'', time = Some 20\<rparr>,
      \<lparr>message_id = Some 0, sender_user_id = Some ''A'', time = Some 30\<rparr>]"

definition example_gaps_bot :: bot where
  "example_gaps_bot =
     example_bot\<lparr>get_group_msg_history := (\<lambda>g n. HistoryDict (Some example_gaps))\<rparr>"

definition example_state :: state where
  "example_state =
     \<lparr>recall_tasks = [2, 0, 1], created = 3,
      status = (\<lambda>task. if task = 1 then Completed else Pending),
      task_message_id = (\<lambda>task. 40 + int task)\<rparr>"

definition example_event :: "segment list \<Rightarrow> event" where
  "example_event segs =
     \<lparr>is_aiocqhttp = True, group_id = ''100'', group_id_int = Some 100,
      sender_id_int = Some 7, messages = segs, result_chain = Some [Plain [0x68, 0x69]]\<rparr>"

section \<open>Properties of the automatic recall\<close>

subsection \<open>Gating by the allow-list\<close>

text \<open>
  C8. For a group message, a non-empty allow-list that does not contain the group id of the
  event disables the recall, and the intercept handler then does nothing; with an empty or
  absent allow-list the group flag alone decides. For a private message the private flag
  alone decides. Both flags default to true.
\<close>

theorem allow_list_gating:
  "(group_id ev \<noteq> [] \<and> group_whitelist cf = Some whitelist \<and> whitelist \<noteq> []
      \<and> group_id ev \<notin> set whitelist
      \<longrightarrow> \<not> should_enable_recall cf ev
          \<and> intercept_and_recall cf parse b ev s = skipped s [] [] False)
   \<and> (group_id ev \<noteq> [] \<and> group_whitelist cf \<in> {None, Some []}
      \<longrightarrow> should_enable_recall cf ev = (enable_group_recall cf \<noteq> Some False))
   \<and> (group_id ev = []
      \<longrightarrow> should_enable_recall cf ev = (enable_private_recall cf \<noteq> Some False))"
  by (auto simp: should_enable_recall_def intercept_and_recall_def split: option.splits)

theorem allow_list_gating_witness:
  "\<not> should_enable_recall (example_conf\<lparr>group_whitelist := Some [''200'', ''300'']\<rparr>)
       (example_event [])
   \<and> i_state (intercept_and_recall (example_conf\<lparr>group_whitelist := Some [''200'', ''300'']\<rparr>)
       (\<lambda>chain. Some [''text'']) example_bot (example_event []) example_state) = example_state
   \<and> should_enable_recall (example_conf\<lparr>group_whitelist := Some []\<rparr>) (example_event [])
   \<and> \<not> should_enable_recall (example_conf\<lparr>enable_private_recall := Some False\<rparr>)
       ((example_event [])\<lparr>group_id := []\<rparr>)"
  using allow_list_gating [of "example_event []"
          "example_conf\<lparr>group_whitelist := Some [''200'', ''300'']\<rparr>" "[''200'', ''300'']"
          "\<lambda>chain. Some [''text'']" example_bot example_state]
    allow_list_gating [of "example_event []" "example_conf\<lparr>group_whitelist := Some []\<rparr>"]
    allow_list_gating [of "(example_event [])\<lparr>group_id := []\<rparr>"
          "example_conf\<lparr>enable_private_recall := Some False\<rparr>"]
  by (simp add: example_event_def example_conf_def skipped_def)

subsection \<open>A send result without a message id\<close>

lemma intercept_no_id:
  assumes c: "i_calls (intercept_and_recall cf parse b ev s) = [c]"
    and f: "\<not> truthy_int (sent_message_id (send_msg b c))"
  shows "i_state (intercept_and_recall cf parse b ev s) = s
       \<and> error_logs (i_logs (intercept_and_recall cf parse b ev s)) \<noteq> []"
proof (cases "should_enable_recall cf ev \<and> is_aiocqhttp ev")
  case False
  with c show ?thesis
    by (auto simp: intercept_and_recall_def skipped_def)
next
  case en: True
  show ?thesis
  proof (cases "result_chain ev")
    case None
    with en c show ?thesis by (simp add: intercept_and_recall_def skipped_def)
  next
    case (Some chain)
    show ?thesis
    proof (cases "chain = [] \<or> parse chain = None \<or> parse chain = Some []")
      case True
      with en Some c show ?thesis
        by (cases chain) (auto simp: intercept_and_recall_def skipped_def)
    next
      case False
      then obtain x xs m ms where ch: "chain = x # xs" and pa: "parse (x # xs) = Some (m # ms)"
        by (cases chain; cases "parse chain") (auto simp: neq_Nil_conv)
      let ?sid = "if group_id ev \<noteq> [] then group_id_int ev else sender_id_int ev"
      show ?thesis
      proof (cases ?sid)
        case None
        with en Some ch pa c show ?thesis
          by (simp add: intercept_and_recall_def skipped_def)
      next
        case sid: (Some i)
        define c0 where
          "c0 = (if group_id ev \<noteq> [] then SendGroupMsg i (m # ms) else SendPrivateMsg i (m # ms))"
        have out: "intercept_and_recall cf parse b ev s =
          (case send_msg b c0 of
             SendRaises \<Rightarrow>
               skipped s [c0] ([LogInfo ''intercepted a bot message''] @ [LogError ''send failed'']) True
           | send_result \<Rightarrow>
               if \<not> truthy_int (sent_message_id send_result)
               then skipped s [c0]
                      ([LogInfo ''intercepted a bot message''] @ [LogError ''no message id'']) True
               else \<lparr>i_state = schedule (the (sent_message_id send_result)) s, i_calls = [c0],
                     i_logs = [LogInfo ''intercepted a bot message''] @ [LogInfo ''sent'',
                                LogInfo ''recall scheduled''],
                     i_chain_cleared = True\<rparr>)"
          using en Some ch pa sid unfolding c0_def
          by (simp add: intercept_and_recall_def Let_def split: send_result.split)
        have "i_calls (intercept_and_recall cf parse b ev s) = [c0]"
          unfolding out by (simp add: skipped_def split: send_result.split)
        with c have cc: "c = c0" by simp
        show ?thesis
          using f unfolding out cc
          by (cases "send_msg b c0") (simp_all add: skipped_def error_logs_def)
      qed
    qed
  qed
qed


text \<open>
  C3. When the result of the send call carries no message id, or the message id zero (or
  is not a dict, or the call raises), the intercept handler leaves the state as it was, so
  no task is created and the set of tasks is unchanged, and it logs an error. A recall
  coroutine run with the message id zero makes no delete call either.
\<close>

theorem no_message_id_no_task:
  "(i_calls (intercept_and_recall cf parse b ev s) = [c]
      \<and> \<not> truthy_int (sent_message_id (send_msg b c))
      \<longrightarrow> i_state (intercept_and_recall cf parse b ev s) = s
          \<and> error_logs (i_logs (intercept_and_recall cf parse b ev s)) \<noteq> [])
   \<and> t_calls (recall_msg cf b NotCancelled 0) = []"
  using intercept_no_id [of cf parse b ev s c]
  by (simp add: recall_msg_def)

theorem no_message_id_no_task_witness:
  "i_calls (intercept_and_recall example_conf (\<lambda>chain. Some [''text''])
       (example_bot\<lparr>send_msg := (\<lambda>c. SendDict (Some 0))\<rparr>) (example_event []) example_state)
     = [SendGroupMsg 100 [''text'']]
   \<and> \<not> truthy_int (sent_message_id (SendDict (Some 0)))
   \<and> i_state (intercept_and_recall example_conf (\<lambda>chain. Some [''text''])
       (example_bot\<lparr>send_msg := (\<lambda>c. SendDict (Some 0))\<rparr>) (example_event []) example_state)
     = example_state"
proof -
  let ?b = "example_bot\<lparr>send_msg := (\<lambda>c. SendDict (Some 0))\<rparr>"
  have c: "i_calls (intercept_and_recall example_conf (\<lambda>chain. Some [''text'']) ?b
       (example_event []) example_state) = [SendGroupMsg 100 [''text'']]"
    by (simp add: intercept_and_recall_def should_enable_recall_def example_conf_def
          example_event_def example_bot_def skipped_def sent_message_id_def truthy_int_def Let_def)
  have f: "\<not> truthy_int (sent_message_id (SendDict (Some 0)))"
    by (simp add: sent_message_id_def truthy_int_def)
  show ?thesis
    using no_message_id_no_task [of example_conf "\<lambda>chain. Some [''text'']" ?b
            "example_event []" example_state "SendGroupMsg 100 [''text'']"] c f
    by simp
qed

subsection \<open>Failures of the delayed delete\<close>

text \<open>
  What holds of the failures of the delete call: a recall coroutine that is not cancelled
  returns whenever the delete call returns, raises an \<^verbatim>\<open>ActionFailed\<close> that has a retcode,
  or raises another \<^verbatim>\<open>Exception\<close>; with retcode 1200 the log has info lines only, for every
  other such failure it ends with an error line.
\<close>

lemma recall_msg_returns:
  "delete_msg client [] msg_id \<noteq> ActionFailed None \<or> msg_id = 0
     \<Longrightarrow> t_result (recall_msg cf client NotCancelled msg_id) = Returned"
  "msg_id \<noteq> 0 \<Longrightarrow> delete_msg client [] msg_id = ActionFailed (Some 1200)
     \<Longrightarrow> t_logs (recall_msg cf client NotCancelled msg_id)
          = [LogInfo ''waiting before recall'', LogInfo ''recall timed out or already recalled'']"
  "msg_id \<noteq> 0 \<Longrightarrow> delete_msg client [] msg_id = ActionFailed (Some r) \<Longrightarrow> r \<noteq> 1200
     \<Longrightarrow> t_logs (recall_msg cf client NotCancelled msg_id)
          = [LogInfo ''waiting before recall'', LogError ''recall failed'']"
  "msg_id \<noteq> 0 \<Longrightarrow> delete_msg client [] msg_id = OtherException
     \<Longrightarrow> t_logs (recall_msg cf client NotCancelled msg_id)
          = [LogInfo ''waiting before recall'', LogError ''recall failed'']"
  by (auto simp: recall_msg_def Let_def split: delete_outcome.splits option.splits)

text \<open>
  C4 fails on the code. When \<^verbatim>\<open>delete_msg\<close> raises an \<^verbatim>\<open>ActionFailed\<close> whose result has no
  entry \<^verbatim>\<open>"retcode"\<close>, line 45 raises \<^verbatim>\<open>KeyError\<close> inside the \<^verbatim>\<open>except\<close> clause: the exception
  leaves the recall task, and the failure is not logged at all. Here the delete call for the
  message 42 fails in that way.
\<close>

theorem recall_missing_retcode_escapes:
  "recall_msg example_conf (example_bot\<lparr>delete_msg := (\<lambda>cs m. ActionFailed None)\<rparr>)
       NotCancelled 42
     = \<lparr>t_calls = [DeleteMsg 42], t_logs = [LogInfo ''waiting before recall''],
        t_result = RaisedKeyError\<rparr>"
  by (simp add: recall_msg_def example_bot_def)

subsection \<open>Draining at unload\<close>

lemma cancel_loop_tasks [simp]: "recall_tasks (cancel_loop hs s) = recall_tasks s"
  by (induction hs arbitrary: s) (simp_all add: cancel_def)

lemma cancel_loop_status:
  "status (cancel_loop hs s) h =
     (if h \<in> set hs \<and> \<not> is_done (status s h) then CancelRequested else status s h)"
  by (induction hs arbitrary: s) (auto simp: cancel_def is_done_def)

lemma gather_length: "length (fst (gather hs s)) = length hs"
  by (induction hs arbitrary: s) (simp_all add: split_beta Let_def)

lemma gather_status:
  "status (snd (gather hs s)) h = (if h \<in> set hs then settled (status s h) else status s h)"
  by (induction hs arbitrary: s)
     (auto simp: split_beta Let_def remove_task_def settled_def split: task_status.splits)

lemma settled_idem [simp]: "settled (settled st) = settled st"
  by (cases st) (simp_all add: settled_def)

lemma gather_results:
  "fst (gather hs s) =
     map (\<lambda>h. if settled (status s h) = Completed then Returned else RaisedCancelled) hs"
proof (induction hs arbitrary: s)
  case Nil
  show ?case by simp
next
  case (Cons h hs)
  let ?s' = "snd (case status s h of
               Completed \<Rightarrow> (Returned, remove_task h s)
             | Cancelled \<Rightarrow> (RaisedCancelled, remove_task h s)
             | CancelRequested \<Rightarrow>
                 (RaisedCancelled,
                  remove_task h (s\<lparr>status := (status s)(h := Cancelled)\<rparr>))
             | Pending \<Rightarrow>
                 (Returned,
                  remove_task h (s\<lparr>status := (status s)(h := Completed)\<rparr>)))"
  have st: "settled (status ?s' k) = settled (status s k)" for k
    by (cases "status s h") (auto simp: remove_task_def settled_def)
  have "fst (gather (h # hs) s) =
      (if settled (status s h) = Completed then Returned else RaisedCancelled)
        # fst (gather hs ?s')"
    by (cases "status s h") (simp_all add: split_beta settled_def)
  also have "fst (gather hs ?s') =
      map (\<lambda>k. if settled (status ?s' k) = Completed then Returned else RaisedCancelled) hs"
    by (rule Cons.IH)
  also have "\<dots> =
      map (\<lambda>k. if settled (status s k) = Completed then Returned else RaisedCancelled) hs"
    by (simp only: st)
  finally show ?case by simp
qed

text \<open>
  C5. For every state, with any number of tasks in the set, \<^verbatim>\<open>terminate\<close> leaves the set
  empty; it gathers one result for each task of the set, a \<^verbatim>\<open>CancelledError\<close> being a
  result and not a failure; every task of the set is done afterwards, the ones that were not
  done being cancelled and the others keeping their status. A second call changes nothing
  and gathers nothing.
\<close>

theorem terminate_drains:
  "recall_tasks (fst (terminate s)) = []
   \<and> fst (snd (terminate s))
       = map (\<lambda>task. if status s task = Completed then Returned else RaisedCancelled)
           (recall_tasks s)
   \<and> (\<forall>task \<in> set (recall_tasks s).
         is_done (status (fst (terminate s)) task)
         \<and> status (fst (terminate s)) task
             = (if is_done (status s task) then status s task else Cancelled))
   \<and> fst (terminate (fst (terminate s))) = fst (terminate s)
   \<and> fst (snd (terminate (fst (terminate s)))) = []"
proof -
  let ?s1 = "cancel_loop (recall_tasks s) s"
  have t: "terminate s =
     ((snd (gather (recall_tasks s) ?s1))\<lparr>recall_tasks := []\<rparr>,
      fst (gather (recall_tasks s) ?s1), [LogInfo ''plugin unloaded''])"
    by (simp add: terminate_def Let_def split_beta)
  have e: "terminate s' = (s', [], [LogInfo ''plugin unloaded''])" if "recall_tasks s' = []" for s'
    using that by (simp add: terminate_def)
  have a: "recall_tasks (fst (terminate s)) = []"
    by (simp add: t)
  have st: "status (fst (terminate s)) task =
      (if task \<in> set (recall_tasks s)
       then (if is_done (status s task) then status s task else Cancelled)
       else status s task)" for task
    by (simp add: t gather_status cancel_loop_status settled_def is_done_def)
  have r: "fst (snd (terminate s))
       = map (\<lambda>task. if status s task = Completed then Returned else RaisedCancelled)
           (recall_tasks s)"
    by (simp add: t gather_results cancel_loop_status settled_def is_done_def
          cong: map_cong)
  have d: "\<forall>task \<in> set (recall_tasks s).
         is_done (status (fst (terminate s)) task)
         \<and> status (fst (terminate s)) task
             = (if is_done (status s task) then status s task else Cancelled)"
    by (simp add: st is_done_def)
  from a r d e [OF a] show ?thesis by (simp add: is_done_def)
qed

theorem terminate_drains_witness:
  "recall_tasks (fst (terminate example_state)) = []
   \<and> fst (snd (terminate example_state)) = [RaisedCancelled, RaisedCancelled, Returned]
   \<and> status (fst (terminate example_state)) 0 = Cancelled
   \<and> status (fst (terminate example_state)) 1 = Completed
   \<and> status (fst (terminate example_state)) 2 = Cancelled
   \<and> fst (snd (terminate (fst (terminate example_state)))) = []"
proof -
  note t = terminate_drains [of example_state]
  have r: "recall_tasks example_state = [2, 0, Suc 0]"
    and s0: "status example_state 0 = Pending"
    and s1: "status example_state (Suc 0) = Completed"
    and s2: "status example_state 2 = Pending"
    by (simp_all add: example_state_def)
  from t have a: "recall_tasks (fst (terminate example_state)) = []"
    and e: "fst (snd (terminate (fst (terminate example_state)))) = []"
    by simp_all
  from t have "fst (snd (terminate example_state))
       = map (\<lambda>task. if status example_state task = Completed then Returned else RaisedCancelled)
           (recall_tasks example_state)"
    by simp
  then have g: "fst (snd (terminate example_state)) = [RaisedCancelled, RaisedCancelled, Returned]"
    unfolding r by (simp add: s0 s1 s2)
  from t have d: "\<forall>task \<in> set (recall_tasks example_state).
         is_done (status (fst (terminate example_state)) task)
         \<and> status (fst (terminate example_state)) task
             = (if is_done (status example_state task) then status example_state task
                else Cancelled)"
    by (simp add: is_done_def)
  have c0: "status (fst (terminate example_state)) 0 = Cancelled"
    and c1: "status (fst (terminate example_state)) (Suc 0) = Completed"
    and c2: "status (fst (terminate example_state)) 2 = Cancelled"
    using d unfolding r by (simp_all add: s0 s1 s2 is_done_def)
  from a g c0 c1 c2 e show ?thesis by simp
qed

section \<open>Properties of the batch recall command\<close>

subsection \<open>Python's sort and the selection of the specification\<close>

lemma py_sort_reverse_eq: "py_sort_reverse key xs = sort_key (\<lambda>x. - key x) xs"
proof -
  let ?ys = "rev (sort_key key (rev xs))"
  have m: "mset ?ys = mset xs" by simp
  have st: "filter (\<lambda>x. - key k = - key x) ?ys = filter (\<lambda>x. - key k = - key x) xs" for k
  proof -
    have "filter (\<lambda>x. key x = key k) (sort_key key (rev xs)) = filter (\<lambda>x. key x = key k) (rev xs)"
      by (rule sort_key_stable)
    then have "rev (filter (\<lambda>x. key x = key k) (sort_key key (rev xs))) = filter (\<lambda>x. key x = key k) xs"
      by (simp add: rev_filter)
    then have "filter (\<lambda>x. key x = key k) ?ys = filter (\<lambda>x. key x = key k) xs"
      by (simp add: rev_filter)
    moreover have "(\<lambda>x. - key k = - key x) = (\<lambda>x. key x = key k)" by auto
    ultimately show ?thesis by simp
  qed
  have "sorted (map key (sort_key key (rev xs)))" by simp
  then have so: "sorted (map (\<lambda>x. - key x) ?ys)"
    by (simp add: sorted_map sorted_wrt_rev)
  show ?thesis
    unfolding py_sort_reverse_def
    using properties_for_sort_key [OF m st so, symmetric] by simp
qed

text \<open>The sort of the specification is a permutation, in descending order of the timestamp,
  and keeps entries with the same timestamp in their original order; so is Python's.\<close>

lemma py_sort_reverse_properties:
  "mset (py_sort_reverse key xs) = mset xs"
  "sorted_wrt (\<lambda>a b. key a \<ge> key b) (py_sort_reverse key xs)"
  "filter (\<lambda>x. key x = k) (py_sort_reverse key xs) = filter (\<lambda>x. key x = k) xs"
proof -
  show "mset (py_sort_reverse key xs) = mset xs"
    by (simp add: py_sort_reverse_def)
  have "sorted (map key (sort_key key (rev xs)))" by simp
  then show "sorted_wrt (\<lambda>a b. key a \<ge> key b) (py_sort_reverse key xs)"
    by (simp add: py_sort_reverse_def sorted_map sorted_wrt_rev)
  have "filter (\<lambda>x. key x = k) (sort_key key (rev xs)) = filter (\<lambda>x. key x = k) (rev xs)"
    by (rule sort_key_stable)
  then have "rev (filter (\<lambda>x. key x = k) (sort_key key (rev xs))) = filter (\<lambda>x. key x = k) xs"
    by (simp add: rev_filter)
  then show "filter (\<lambda>x. key x = k) (py_sort_reverse key xs) = filter (\<lambda>x. key x = k) xs"
    by (simp add: py_sort_reverse_def rev_filter)
qed

lemma filter_messages_kept:
  "filter_messages t h = kept_spec (if truthy_str t then t else None) h"
  by (cases t) (simp_all add: filter_messages_def kept_spec_def truthy_str_def)

lemma filter_messages_Nil [simp]: "filter_messages t [] = []"
  by (simp add: filter_messages_def)

lemma window_spec:
  assumes "0 < r" "0 \<le> m"
  shows "(if filter_messages t h = [] then []
          else recall_window (filter_messages t h) (cap_count r m))
         = select_spec (if truthy_str t then t else None) r m h"
proof -
  have c: "cap_count r m = min r m" by (simp add: cap_count_def min_def)
  have n: "0 \<le> min r m" using assms by simp
  show ?thesis
    unfolding recall_window_def py_sort_reverse_eq select_spec_def Let_def c
      filter_messages_kept py_slice_to_def
    using n by simp
qed

lemma select_spec_length:
  "0 < r \<Longrightarrow> length (select_spec t r m h) \<le> min (nat r) (length (kept_spec t h))"
  by (simp add: select_spec_def Let_def)

subsection \<open>The deletion loop\<close>

lemma delete_loop_calls:
  "fst (delete_loop b msgs cs ls s) = cs @ map DeleteMsg (recall_ids msgs)"
  by (induction msgs arbitrary: cs ls s) (simp_all add: recall_ids_def Let_def)

lemma delete_loop_success:
  "snd (snd (delete_loop b msgs cs ls s)) = s + int (succeeded b cs (map DeleteMsg (recall_ids msgs)))"
  by (induction msgs arbitrary: cs ls s) (simp_all add: recall_ids_def Let_def)

lemma succeeded_le: "succeeded b prev cs \<le> length cs"
  by (induction b prev cs rule: succeeded.induct) simp_all

lemma recall_ids_le: "length (recall_ids msgs) \<le> length msgs"
  by (simp add: recall_ids_def)

lemma delete_ids_map [simp]: "delete_ids (map DeleteMsg ms) = ms"
  by (induction ms) (simp_all add: delete_ids_def)

lemma history_counts_map [simp]: "history_counts (map DeleteMsg ms) = []"
  by (induction ms) (simp_all add: history_counts_def)

subsection \<open>The paths of the batch handler\<close>

lemma parsed_count_None:
  "parsed_count py ev = None \<longleftrightarrow>
     count_nums py (messages ev) = [] \<or> py_int py (last (count_nums py (messages ev))) = None"
  by (simp add: parsed_count_def)

lemma parsed_count_Some:
  "parsed_count py ev = Some c \<longleftrightarrow>
     count_nums py (messages ev) \<noteq> [] \<and> py_int py (last (count_nums py (messages ev))) = Some c"
  by (simp add: parsed_count_def)

lemma py_int_nonneg: "py_int py s = Some c \<Longrightarrow> 0 \<le> c"
proof -
  have "0 \<le> a \<Longrightarrow> 0 \<le> foldl (\<lambda>a c. 10 * a + digit_value py c) a s" for a
    by (induction s arbitrary: a) (simp_all add: digit_value_def split: option.splits)
  from this [of 0] show "py_int py s = Some c \<Longrightarrow> 0 \<le> c"
    by (auto simp: py_int_def split: if_splits)
qed

lemma batch_no_count:
  assumes "count_nums py (messages ev) = []"
  shows "batch_recall_command py cf b ev =
     reject (if \<not> is_aiocqhttp ev then UnsupportedPlatform
             else if group_id ev = [] then GroupOnly else MissingCount)"
  using assms by (simp add: batch_recall_command_def Let_def)

lemma batch_nonpositive:
  assumes "parsed_count py ev = Some c" "c \<le> 0"
  shows "batch_recall_command py cf b ev =
     reject (if \<not> is_aiocqhttp ev then UnsupportedPlatform
             else if group_id ev = [] then GroupOnly else NonPositiveCount)"
  using assms by (simp add: batch_recall_command_def parsed_count_Some Let_def)

lemma batch_value_error:
  assumes "count_nums py (messages ev) \<noteq> []"
    and "py_int py (last (count_nums py (messages ev))) = None"
  shows "batch_recall_command py cf b ev =
     (if \<not> is_aiocqhttp ev then reject UnsupportedPlatform
      else if group_id ev = [] then reject GroupOnly else value_error)"
  using assms by (simp add: batch_recall_command_def Let_def)

lemma batch_early:
  assumes "\<not> reaches_fetch py ev"
  shows "calls (batch_recall_command py cf b ev) = []
      \<and> to_recall (batch_recall_command py cf b ev) = []
      \<and> reported (batch_recall_command py cf b ev) = None"
proof (cases "parsed_count py ev")
  case None
  show ?thesis
  proof (cases "count_nums py (messages ev) = []")
    case True
    show ?thesis
      unfolding batch_no_count [OF True] by (simp add: reject_def reported_def)
  next
    case False
    with None have "py_int py (last (count_nums py (messages ev))) = None"
      by (simp add: parsed_count_None)
    from batch_value_error [OF False this] show ?thesis
      by (simp add: reject_def value_error_def reported_def)
  qed
next
  case (Some c)
  show ?thesis
  proof (cases "c \<le> 0")
    case True
    show ?thesis
      unfolding batch_nonpositive [OF Some True] by (simp add: reject_def reported_def)
  next
    case pos: False
    show ?thesis
    proof (cases "is_aiocqhttp ev \<and> group_id ev \<noteq> []")
      case True
      with Some pos assms have "group_id_int ev = None"
        by (auto simp: reaches_fetch_def)
      with True Some pos show ?thesis
        by (simp add: batch_recall_command_def parsed_count_Some Let_def reported_def)
    next
      case False
      then show ?thesis
        by (auto simp: batch_recall_command_def reject_def reported_def)
    qed
  qed
qed

lemma batch_window_any:
  assumes "reaches_fetch py ev" "parsed_count py ev = Some c" "group_id_int ev = Some gid"
  shows "to_recall (batch_recall_command py cf b ev) =
     (let history = (case get_group_msg_history b gid (min (max_count_of cf * 3) 100) of
                       HistoryDict (Some ms) \<Rightarrow> ms | _ \<Rightarrow> [])
      in if filter_messages (find_target_qq (messages ev)) history = [] then []
         else recall_window (filter_messages (find_target_qq (messages ev)) history)
                (cap_count c (max_count_of cf)))"
proof (cases "get_group_msg_history b gid (min (max_count_of cf * 3) 100)")
  case HistoryRaises
  with assms show ?thesis
    by (simp add: batch_recall_command_def reaches_fetch_def parsed_count_Some Let_def)
next
  case HistoryNotDict
  with assms show ?thesis
    by (simp add: batch_recall_command_def reaches_fetch_def parsed_count_Some Let_def)
next
  case (HistoryDict ms)
  with assms show ?thesis
    by (cases ms)
       (simp_all add: batch_recall_command_def reaches_fetch_def parsed_count_Some Let_def
          split_beta)
qed

lemma batch_window:
  assumes "reaches_fetch py ev" "parsed_count py ev = Some c" "group_id_int ev = Some gid"
    and "get_group_msg_history b gid (min (max_count_of cf * 3) 100) = HistoryDict (Some history)"
  shows "to_recall (batch_recall_command py cf b ev) =
     (if filter_messages (find_target_qq (messages ev)) history = [] then []
      else recall_window (filter_messages (find_target_qq (messages ev)) history)
             (cap_count c (max_count_of cf)))"
  using batch_window_any [OF assms(1-3), of cf b] assms(4) by (simp add: Let_def)

lemma batch_outcome:
  "(calls (batch_recall_command py cf b ev) = []
      \<and> to_recall (batch_recall_command py cf b ev) = []
      \<and> reported (batch_recall_command py cf b ev) = None \<and> \<not> reaches_fetch py ev)
   \<or> (\<exists>gid. calls (batch_recall_command py cf b ev)
              = [GetGroupMsgHistory gid (min (max_count_of cf * 3) 100)]
          \<and> to_recall (batch_recall_command py cf b ev) = []
          \<and> reported (batch_recall_command py cf b ev) = None \<and> reaches_fetch py ev)
   \<or> (\<exists>gid. calls (batch_recall_command py cf b ev)
              = GetGroupMsgHistory gid (min (max_count_of cf * 3) 100)
                  # map DeleteMsg (recall_ids (to_recall (batch_recall_command py cf b ev)))
          \<and> reported (batch_recall_command py cf b ev)
              = Some (int (succeeded b [GetGroupMsgHistory gid (min (max_count_of cf * 3) 100)]
                  (map DeleteMsg (recall_ids (to_recall (batch_recall_command py cf b ev))))))
          \<and> reaches_fetch py ev)"
proof (cases "reaches_fetch py ev")
  case False
  then show ?thesis using batch_early [OF False] by simp
next
  case True
  then obtain gid c where g: "group_id_int ev = Some gid" and c: "parsed_count py ev = Some c"
    and pos: "0 < c" and ok: "is_aiocqhttp ev" "group_id ev \<noteq> []"
    by (auto simp: reaches_fetch_def split: option.splits)
  let ?n = "min (max_count_of cf * 3) 100"
  show ?thesis
  proof (cases "get_group_msg_history b gid ?n")
    case HistoryRaises
    with True g c pos ok show ?thesis
      by (simp add: batch_recall_command_def reported_def parsed_count_Some Let_def)
  next
    case HistoryNotDict
    with True g c pos ok show ?thesis
      by (simp add: batch_recall_command_def reported_def parsed_count_Some Let_def)
  next
    case (HistoryDict ms)
    with True g c pos ok show ?thesis
      by (cases ms)
         (simp_all add: batch_recall_command_def reported_def parsed_count_Some Let_def
            split_beta delete_loop_calls delete_loop_success)
  qed
qed

subsection \<open>The window does not look at message ids\<close>

lemma insort_key_map:
  "insort_key k (f x) (map f ys) = map f (insort_key (\<lambda>y. k (f y)) x ys)"
  by (induction ys) simp_all

lemma sort_key_map: "sort_key k (map f xs) = map f (sort_key (\<lambda>y. k (f y)) xs)"
  by (induction xs) (simp_all add: insort_key_map)

lemma recall_window_ids:
  "recall_window (map (message_id_update g) xs) n = map (message_id_update g) (recall_window xs n)"
  by (simp add: recall_window_def py_sort_reverse_eq py_slice_to_def sort_key_map time_key_def
        take_map)

lemma filter_messages_ids:
  "filter_messages t (map (message_id_update g) h) = map (message_id_update g) (filter_messages t h)"
  by (simp add: filter_messages_def filter_map comp_def sender_str_def)


subsection \<open>The selected window\<close>

text \<open>
  C1 (as amended). When the handler reaches the history call and the call returns a history
  list, then for a positive requested count and a configured \<open>max_count\<close> that is not
  negative the window \<open>to_recall\<close> is the selection of the specification: the count clamped
  to at most \<open>max_count\<close>, the entries of the target sender kept when a target is given
  (a target that is the empty string counts as not given), sorted by timestamp descending
  with ties in fetch order, and the first clamped-count entries taken. So the window never
  has more entries than the minimum of the requested count and the number of entries kept.
\<close>

theorem batch_selection:
  assumes "reaches_fetch py ev"
    and "parsed_count py ev = Some requested"
    and "max_count = max_count_of cf"
    and "0 \<le> max_count"
    and "group_id_int ev = Some gid"
    and "get_group_msg_history b gid (min (max_count * 3) 100) = HistoryDict (Some history)"
    and "target = (let t = find_target_qq (messages ev) in if truthy_str t then t else None)"
  shows "to_recall (batch_recall_command py cf b ev)
           = select_spec target requested max_count history
       \<and> length (to_recall (batch_recall_command py cf b ev))
           \<le> min (nat requested) (length (kept_spec target history))"
proof -
  have pos: "0 < requested"
    using assms(1,2) by (simp add: reaches_fetch_def)
  have "to_recall (batch_recall_command py cf b ev) =
     (if filter_messages (find_target_qq (messages ev)) history = [] then []
      else recall_window (filter_messages (find_target_qq (messages ev)) history)
             (cap_count requested max_count))"
    using batch_window [of py ev requested gid b cf history] assms by simp
  also have "\<dots> = select_spec target requested max_count history"
    using window_spec [OF pos assms(4)] assms(7) by (simp add: Let_def)
  finally show ?thesis using select_spec_length [OF pos] by simp
qed

text \<open>The witness reads the count twelve from an ASCII one and a fullwidth two.\<close>

theorem batch_selection_witness:
  "reaches_fetch example_python (example_event (command_text [0x31, 0xFF12]))
   \<and> parsed_count example_python (example_event (command_text [0x31, 0xFF12])) = Some 12
   \<and> (0::int) \<le> max_count_of example_conf
   \<and> to_recall (batch_recall_command example_python example_conf example_bot
        (example_event (command_text [0x31, 0xFF12])))
      = select_spec None 12 20 example_history
   \<and> select_spec None 12 20 example_history
      = [\<lparr>message_id = Some 3, sender_user_id = Some ''A'', time = Some 30\<rparr>,
         \<lparr>message_id = Some 2, sender_user_id = Some ''B'', time = Some 20\<rparr>,
         \<lparr>message_id = Some 1, sender_user_id = Some ''A'', time = Some 10\<rparr>]"
proof -
  let ?ev = "example_event (command_text [0x31, 0xFF12])"
  have p: "parsed_count example_python ?ev = Some 12"
    by (simp add: parsed_count_def example_event_def command_text_def count_nums_def
          full_text_def strip_def command_word_def is_digit_def example_python_def py_int_def
          digit_value_def)
  have r: "reaches_fetch example_python ?ev"
    unfolding reaches_fetch_def p by (simp add: example_event_def)
  have m: "max_count_of example_conf = 20"
    by (simp add: max_count_of_def example_conf_def)
  have s: "select_spec None 12 20 example_history
      = [\<lparr>message_id = Some 3, sender_user_id = Some ''A'', time = Some 30\<rparr>,
         \<lparr>message_id = Some 2, sender_user_id = Some ''B'', time = Some 20\<rparr>,
         \<lparr>message_id = Some 1, sender_user_id = Some ''A'', time = Some 10\<rparr>]"
    by (simp add: select_spec_def kept_spec_def example_history_def time_key_def)
  have "to_recall (batch_recall_command example_python example_conf example_bot ?ev)
      = select_spec None 12 20 example_history"
    using batch_selection [of example_python ?ev 12 20 example_conf 100 example_bot
            example_history None] r p m
    by (simp add: example_event_def example_bot_def command_text_def truthy_str_def)
  with r p m s show ?thesis by simp
qed

text \<open>
  The claim as stated fails for a negative \<open>max_count\<close>: the capped count is negative and
  the slice of line 258 then drops entries from the end, so one requested entry selects two
  of three. It also fails for an empty-string target, which line 241 treats as no target.
\<close>

theorem batch_selection_counterexample:
  "length (to_recall (batch_recall_command example_python
       (example_conf\<lparr>batch_max_count := Some (- 1)\<rparr>)
       example_bot (example_event (command_text [0x31]))))
     > min (nat 1) (length (kept_spec None example_history))
   \<and> to_recall (batch_recall_command example_python
       (example_conf\<lparr>batch_max_count := Some (- 1)\<rparr>)
       example_bot (example_event (command_text [0x31])))
     \<noteq> select_spec None 1 (- 1) example_history
   \<and> to_recall (batch_recall_command example_python example_conf
       example_bot (example_event (At [] # command_text [0x31])))
     \<noteq> select_spec (Some []) 1 20 example_history"
  by (simp add: batch_recall_command_def example_event_def example_conf_def example_bot_def
        command_text_def count_nums_def full_text_def strip_def command_word_def is_digit_def
        example_python_def py_int_def digit_value_def max_count_of_def cap_count_def
        filter_messages_def truthy_str_def recall_window_def py_sort_reverse_def
        py_slice_to_def time_key_def example_history_def
        select_spec_def kept_spec_def sender_str_def Let_def)

subsection \<open>The deletion tally\<close>

text \<open>
  C6. Whatever the outcomes of the delete calls are, the handler makes one delete call for
  each selected entry that has a message id, in the order of the window: a delete that fails
  does not stop the later ones. The success count of the reply is the number of delete calls
  that succeeded, and it is at most the number of selected entries.
\<close>

theorem batch_deletion_tally:
  "delete_ids (calls (batch_recall_command py cf b ev))
     = recall_ids (to_recall (batch_recall_command py cf b ev))
   \<and> reported (batch_recall_command py cf b ev)
       \<in> {None, Some (int (succeeded b [] (calls (batch_recall_command py cf b ev))))}
   \<and> (case reported (batch_recall_command py cf b ev) of
         None \<Rightarrow> True
       | Some n \<Rightarrow> n \<le> int (length (to_recall (batch_recall_command py cf b ev))))"
proof -
  let ?out = "batch_recall_command py cf b ev"
  let ?ds = "map DeleteMsg (recall_ids (to_recall ?out))"
  have le: "int (succeeded b prev ?ds) \<le> int (length (to_recall ?out))" for prev
    using succeeded_le [of b prev ?ds] recall_ids_le [of "to_recall ?out"] by simp
  from batch_outcome [of py cf b ev] show ?thesis
  proof (elim disjE exE conjE)
    assume "calls ?out = []" "to_recall ?out = []" "reported ?out = None"
    then show ?thesis by (simp add: delete_ids_def recall_ids_def)
  next
    fix gid
    assume "calls ?out = [GetGroupMsgHistory gid (min (max_count_of cf * 3) 100)]"
      "to_recall ?out = []" "reported ?out = None"
    then show ?thesis by (simp add: delete_ids_def recall_ids_def)
  next
    fix gid
    let ?f = "GetGroupMsgHistory gid (min (max_count_of cf * 3) 100)"
    assume c: "calls ?out = ?f # ?ds"
      and r: "reported ?out = Some (int (succeeded b [?f] ?ds))"
    have d: "delete_ids (?f # ?ds) = recall_ids (to_recall ?out)"
      using delete_ids_map [of "recall_ids (to_recall ?out)"] by (simp add: delete_ids_def)
    have s: "succeeded b [] (?f # ?ds) = succeeded b [?f] ?ds" by simp
    show ?thesis
      unfolding c r d s using le [of "[?f]"] by simp
  qed
qed

theorem batch_deletion_tally_witness:
  "delete_ids (calls (batch_recall_command example_python example_conf example_bot
       (example_event (command_text [0x33])))) = [3, 2, 1]
   \<and> reported (batch_recall_command example_python example_conf example_bot
       (example_event (command_text [0x33]))) = Some 2"
  using batch_deletion_tally [of example_python example_conf example_bot
          "example_event (command_text [0x33])"]
  by (simp add: batch_recall_command_def example_event_def example_conf_def example_bot_def
        command_text_def count_nums_def full_text_def strip_def command_word_def is_digit_def
        example_python_def py_int_def digit_value_def max_count_of_def cap_count_def
        filter_messages_def truthy_str_def recall_window_def py_sort_reverse_def
        py_slice_to_def time_key_def example_history_def
        truthy_int_def delete_ids_def reported_def Let_def)

subsection \<open>Invalid input\<close>

text \<open>
  What holds of invalid input: when the command text has no run of digits after the command
  word, or the count read from the last run is not positive, the handler yields one
  rejection reply, makes no history or delete call and raises nothing.
\<close>

lemma batch_invalid_input:
  assumes "count_nums py (messages ev) = [] \<or> (\<exists>c. parsed_count py ev = Some c \<and> c \<le> 0)"
  shows "replies (batch_recall_command py cf b ev) =
           [if \<not> is_aiocqhttp ev then UnsupportedPlatform
            else if group_id ev = [] then GroupOnly
            else if count_nums py (messages ev) = [] then MissingCount
            else NonPositiveCount]
       \<and> calls (batch_recall_command py cf b ev) = []
       \<and> to_recall (batch_recall_command py cf b ev) = []
       \<and> \<not> raised (batch_recall_command py cf b ev)"
proof (cases "count_nums py (messages ev) = []")
  case True
  show ?thesis
    unfolding batch_no_count [OF True] using True by (simp add: reject_def)
next
  case False
  with assms obtain c where c: "parsed_count py ev = Some c" "c \<le> 0" by auto
  show ?thesis
    unfolding batch_nonpositive [OF c] using False by (simp add: reject_def)
qed

text \<open>The runs of digits of a command text that ends in a repeated digit, and a text that
  \<^verbatim>\<open>strip\<close> leaves as it is.\<close>

lemma findall_digits_replicate:
  assumes "is_digit py d"
  shows "findall_digits py run (replicate n d)
       = (if run = [] \<and> n = 0 then [] else [run @ replicate n d])"
proof (induction n arbitrary: run)
  case 0
  show ?case by simp
next
  case (Suc n)
  show ?case using assms by (simp add: Suc.IH)
qed

lemma strip_same:
  assumes "s \<noteq> []" "\<not> whitespace py (hd s)" "\<not> whitespace py (last s)"
  shows "strip py s = s"
proof -
  have a: "dropWhile (whitespace py) s = s"
    using assms(1,2) by (simp add: dropWhile_eq_self_iff)
  have "dropWhile (whitespace py) (rev s) = rev s"
    using assms(1,3) by (simp add: dropWhile_eq_self_iff hd_rev)
  with a show ?thesis by (simp add: strip_def)
qed

lemma count_nums_long:
  "count_nums example_python (command_text (replicate (Suc n) 0x39)) = [replicate (Suc n) 0x39]"
proof -
  let ?t = "command_word @ 0x20 # replicate (Suc n) 0x39"
  have d: "is_digit example_python 0x39" and sp: "\<not> is_digit example_python 0x20"
    by (simp_all add: is_digit_def example_python_def)
  have "strip example_python ?t = ?t"
    by (rule strip_same) (simp_all add: command_word_def example_python_def)
  then have f: "full_text example_python (command_text (replicate (Suc n) 0x39)) = ?t"
    by (simp add: full_text_def command_text_def)
  have a: "after_first command_word ?t = Some (0x20 # replicate (Suc n) 0x39)"
    by (simp add: command_word_def)
  have "findall_digits example_python [] (0x20 # replicate (Suc n) 0x39)
      = findall_digits example_python [] (replicate (Suc n) 0x39)"
    using sp by simp
  also have "\<dots> = [replicate (Suc n) 0x39]"
    using findall_digits_replicate [OF d, of "[]" "Suc n"] by simp
  finally show ?thesis
    unfolding count_nums_def Let_def f a by simp
qed

text \<open>
  C7 fails on the code. A command text whose count is a run of 4301 digits has no count that
  \<^verbatim>\<open>int\<close> can read under the default limit of 4300 digits: line 219 raises \<^verbatim>\<open>ValueError\<close>
  outside any \<^verbatim>\<open>try\<close>, so the handler yields no rejection reply (it makes no call either).
\<close>

theorem oversized_count_raises:
  "batch_recall_command example_python example_conf example_bot
       (example_event (command_text (replicate 4301 0x39)))
     = \<lparr>replies = [], calls = [], logs = [], to_recall = [], raised = True\<rparr>"
proof -
  let ?ev = "example_event (command_text (replicate 4301 0x39))"
  have n: "count_nums example_python (messages ?ev) = [replicate 4301 0x39]"
    using count_nums_long [of 4300] by (simp add: example_event_def)
  have "py_int example_python (replicate 4301 0x39) = None"
    by (simp add: py_int_def example_python_def)
  with n have "batch_recall_command example_python example_conf example_bot ?ev = value_error"
    using batch_value_error [of example_python ?ev example_conf example_bot]
    by (simp add: example_event_def)
  then show ?thesis by (simp add: value_error_def)
qed

subsection \<open>The history call\<close>

text \<open>
  C9. A run of the handler that reaches the history call makes exactly one such call, and
  asks for \<open>min (max_count * 3) 100\<close> entries; a run that does not reach it makes none.
\<close>

theorem history_fetch_count:
  "history_counts (calls (batch_recall_command py cf b ev))
     = (if reaches_fetch py ev then [min (max_count_of cf * 3) 100] else [])"
proof -
  let ?out = "batch_recall_command py cf b ev"
  from batch_outcome [of py cf b ev] show ?thesis
  proof (elim disjE exE conjE)
    assume "calls ?out = []" "\<not> reaches_fetch py ev"
    then show ?thesis by (simp add: history_counts_def)
  next
    fix gid
    assume "calls ?out = [GetGroupMsgHistory gid (min (max_count_of cf * 3) 100)]"
      "reaches_fetch py ev"
    then show ?thesis by (simp add: history_counts_def)
  next
    fix gid
    let ?f = "GetGroupMsgHistory gid (min (max_count_of cf * 3) 100)"
    let ?ds = "map DeleteMsg (recall_ids (to_recall ?out))"
    assume c: "calls ?out = ?f # ?ds" and r: "reaches_fetch py ev"
    have "history_counts (?f # ?ds) = [min (max_count_of cf * 3) 100]"
      using history_counts_map [of "recall_ids (to_recall ?out)"]
      by (simp add: history_counts_def)
    with c r show ?thesis by simp
  qed
qed

text \<open>The witness has a fullwidth five as its count, and an oversized count that does not
  reach the call.\<close>

theorem history_fetch_count_witness:
  "reaches_fetch example_python (example_event (command_text [0xFF15]))
   \<and> history_counts (calls (batch_recall_command example_python example_conf example_bot
        (example_event (command_text [0xFF15])))) = [60]
   \<and> history_counts (calls (batch_recall_command example_python
        (example_conf\<lparr>batch_max_count := Some 50\<rparr>)
        example_bot (example_event (command_text [0xFF15])))) = [100]
   \<and> \<not> reaches_fetch example_python (example_event (command_text (replicate 4301 0x39)))
   \<and> history_counts (calls (batch_recall_command example_python example_conf example_bot
        (example_event (command_text (replicate 4301 0x39))))) = []"
proof -
  let ?ev = "example_event (command_text [0xFF15])"
  let ?long = "example_event (command_text (replicate 4301 0x39))"
  have p: "parsed_count example_python ?ev = Some 5"
    by (simp add: parsed_count_def example_event_def command_text_def count_nums_def
          full_text_def strip_def command_word_def is_digit_def example_python_def py_int_def
          digit_value_def)
  have r: "reaches_fetch example_python ?ev"
    unfolding reaches_fetch_def p by (simp add: example_event_def)
  have n: "count_nums example_python (messages ?long) = [replicate 4301 0x39]"
    using count_nums_long [of 4300] by (simp add: example_event_def)
  have "parsed_count example_python ?long = None"
    unfolding parsed_count_def n by (simp add: py_int_def example_python_def)
  then have l: "\<not> reaches_fetch example_python ?long"
    by (simp add: reaches_fetch_def)
  show ?thesis
    using history_fetch_count [of example_python example_conf example_bot ?ev]
      history_fetch_count [of example_python "example_conf\<lparr>batch_max_count := Some 50\<rparr>"
        example_bot ?ev]
      history_fetch_count [of example_python example_conf example_bot ?long] r l
    by (simp add: max_count_of_def example_conf_def)
qed

subsection \<open>Entries without a message id\<close>

text \<open>
  C10. The entries of the window without a true message id get no delete call, and the
  entries with one get one each, so the two counts add up to the size of the window; the
  success count is at most the number of entries with a true message id. The window itself
  is chosen without looking at message ids: changing the ids of the history changes the ids
  of the window and nothing else, so an entry without an id keeps its slot and no other
  entry is taken in its place.
\<close>

theorem falsy_id_keeps_slot:
  "length (delete_ids (calls (batch_recall_command py cf b ev)))
     + length (filter (\<lambda>e. \<not> truthy_int (message_id e)) (to_recall (batch_recall_command py cf b ev)))
     = length (to_recall (batch_recall_command py cf b ev))
   \<and> (case reported (batch_recall_command py cf b ev) of
         None \<Rightarrow> True
       | Some n \<Rightarrow> n \<le> int (length (filter (\<lambda>e. truthy_int (message_id e))
                                 (to_recall (batch_recall_command py cf b ev)))))
   \<and> to_recall (batch_recall_command py cf
          (b\<lparr>get_group_msg_history := (\<lambda>gid n. with_ids g (get_group_msg_history b gid n))\<rparr>) ev)
       = map (message_id_update g) (to_recall (batch_recall_command py cf b ev))"
proof -
  let ?out = "batch_recall_command py cf b ev"
  let ?b' = "b\<lparr>get_group_msg_history := (\<lambda>gid n. with_ids g (get_group_msg_history b gid n))\<rparr>"
  let ?ds = "map DeleteMsg (recall_ids (to_recall ?out))"
  have len: "length (recall_ids (to_recall ?out))
       = length (filter (\<lambda>e. truthy_int (message_id e)) (to_recall ?out))"
    by (simp add: recall_ids_def)
  have part: "length (filter (\<lambda>e. truthy_int (message_id e)) (to_recall ?out))
       + length (filter (\<lambda>e. \<not> truthy_int (message_id e)) (to_recall ?out))
       = length (to_recall ?out)"
    using sum_length_filter_compl [of "\<lambda>e. truthy_int (message_id e)" "to_recall ?out"] by simp
  have le: "int (succeeded b prev ?ds)
       \<le> int (length (filter (\<lambda>e. truthy_int (message_id e)) (to_recall ?out)))" for prev
    using succeeded_le [of b prev ?ds] len by simp
  have a: "length (delete_ids (calls ?out))
     + length (filter (\<lambda>e. \<not> truthy_int (message_id e)) (to_recall ?out))
     = length (to_recall ?out)
   \<and> (case reported ?out of
         None \<Rightarrow> True
       | Some n \<Rightarrow> n \<le> int (length (filter (\<lambda>e. truthy_int (message_id e)) (to_recall ?out))))"
    using batch_outcome [of py cf b ev]
  proof (elim disjE exE conjE)
    assume "calls ?out = []" "to_recall ?out = []" "reported ?out = None"
    then show ?thesis by (simp add: delete_ids_def)
  next
    fix gid
    assume "calls ?out = [GetGroupMsgHistory gid (min (max_count_of cf * 3) 100)]"
      "to_recall ?out = []" "reported ?out = None"
    then show ?thesis by (simp add: delete_ids_def)
  next
    fix gid
    let ?f = "GetGroupMsgHistory gid (min (max_count_of cf * 3) 100)"
    assume c: "calls ?out = ?f # ?ds"
      and r: "reported ?out = Some (int (succeeded b [?f] ?ds))"
    have d: "delete_ids (?f # ?ds) = recall_ids (to_recall ?out)"
      using delete_ids_map [of "recall_ids (to_recall ?out)"] by (simp add: delete_ids_def)
    show ?thesis
      unfolding c r d using le [of "[?f]"] part len by simp
  qed
  have w: "to_recall (batch_recall_command py cf ?b' ev) = map (message_id_update g) (to_recall ?out)"
  proof (cases "reaches_fetch py ev")
    case False
    then show ?thesis using batch_early [of py ev cf b] batch_early [of py ev cf ?b'] by simp
  next
    case True
    then obtain gid c where gid: "group_id_int ev = Some gid"
      and c: "parsed_count py ev = Some c"
      by (auto simp: reaches_fetch_def split: option.splits)
    let ?r = "get_group_msg_history b gid (min (max_count_of cf * 3) 100)"
    have h: "(case with_ids g ?r of HistoryDict (Some ms) \<Rightarrow> ms | _ \<Rightarrow> [])
        = map (message_id_update g) (case ?r of HistoryDict (Some ms) \<Rightarrow> ms | _ \<Rightarrow> [])"
      by (simp add: with_ids_def split: history_result.splits option.splits)
    show ?thesis
      unfolding batch_window_any [OF True c gid]
      by (simp add: h Let_def filter_messages_ids recall_window_ids)
  qed
  from a w show ?thesis by simp
qed

theorem falsy_id_keeps_slot_witness:
  "to_recall (batch_recall_command example_python example_conf example_gaps_bot
       (example_event (command_text [0x32])))
     = [\<lparr>message_id = Some 0, sender_user_id = Some ''A'', time = Some 30\<rparr>,
        \<lparr>message_id = None, sender_user_id = Some ''B'', time = Some 20\<rparr>]
   \<and> delete_ids (calls (batch_recall_command example_python example_conf example_gaps_bot
       (example_event (command_text [0x32])))) = []
   \<and> reported (batch_recall_command example_python example_conf example_gaps_bot
       (example_event (command_text [0x32]))) = Some 0"
  using falsy_id_keeps_slot [of example_python example_conf example_gaps_bot
          "example_event (command_text [0x32])" id]
  by (simp add: batch_recall_command_def example_event_def example_conf_def example_bot_def
        command_text_def count_nums_def full_text_def strip_def command_word_def is_digit_def
        example_python_def py_int_def digit_value_def max_count_of_def cap_count_def
        filter_messages_def truthy_str_def recall_window_def py_sort_reverse_def
        py_slice_to_def time_key_def example_gaps_bot_def
        example_gaps_def truthy_int_def delete_ids_def reported_def Let_def)

end
